theory Spec2Isabelle
  imports Complex_Main
begin

section \<open>The fluent request builder of \<^verbatim>\<open>src/utils/request-handler.ts\<close>\<close>

subsection \<open>Values\<close>

text \<open>
  A JavaScript string is the sequence of code points it denotes: a surrogate pair is one
  code point above \<^verbatim>\<open>0xFFFF\<close>, an unpaired surrogate is the code point
  \<^verbatim>\<open>0xD800\<close> .. \<^verbatim>\<open>0xDFFF\<close> itself. A string literal of the source is written
  \<open>js ''...''\<close>.

  A property value is a string or a Number. A Number is NaN, an infinity or finite, and
  a finite Number is written by its value, a rational (every finite double is one; both
  zeros are \<open>Finite 0\<close>). An object is the list of its own enumerable string-keyed
  properties in the order in which \<^verbatim>\<open>Object.entries\<close> yields them.
\<close>

type_synonym jsstring = "nat list"

definition js :: "string \<Rightarrow> jsstring" where
  "js s = map of_char s"

datatype number = Finite rat | NaN | PositiveInfinity | NegativeInfinity

datatype jsvalue = JString jsstring | JNumber number

type_synonym jsobject = "(jsstring \<times> jsvalue) list"

type_synonym ref = nat

subsection \<open>The class and its store\<close>

text \<open>
  The fields of \<^verbatim>\<open>class RequestHandler\<close>. \<open>baseUrl\<close> is the one field that the class
  itself tests for null or undefined (the \<^verbatim>\<open>??\<close> of \<^verbatim>\<open>buildUrl\<close>), so it is an option
  whose \<open>None\<close> is null or undefined. \<open>request\<close> is an opaque handle, \<open>None\<close> being
  \<^verbatim>\<open>null\<close>.
\<close>

record RequestHandler =
  defaultBaseUrl :: jsstring
  baseUrl :: "jsstring option"
  apiPath :: jsstring
  apiParams :: jsobject
  apiHeader :: jsobject
  apiBody :: jsobject
  request :: "ref option"

text \<open>The field initialisers, that is the object \<^verbatim>\<open>new RequestHandler()\<close> creates.\<close>

definition new_RequestHandler :: RequestHandler where
  "new_RequestHandler =
     \<lparr> defaultBaseUrl = js ''https://conduit-api.bondaracademy.com'',
       baseUrl = Some [],
       apiPath = [],
       apiParams = [],
       apiHeader = [],
       apiBody = [],
       request = None \<rparr>"

text \<open>
  Instances live in a store and are handled through references, so that \<^verbatim>\<open>return this\<close>
  has a meaning. The console holds the lines written by \<^verbatim>\<open>console.log\<close>.
\<close>

record world =
  heap :: "ref \<Rightarrow> RequestHandler"
  console :: "jsstring list"

definition assign :: "ref \<Rightarrow> (RequestHandler \<Rightarrow> RequestHandler) \<Rightarrow> world \<Rightarrow> world" where
  "assign this f w = w\<lparr>heap := (heap w)(this := f (heap w this))\<rparr>"

subsection \<open>The configuration methods\<close>

definition url :: "ref \<Rightarrow> jsstring option \<Rightarrow> world \<Rightarrow> ref \<times> world" where
  "url this u w = (this, assign this (\<lambda>obj. obj\<lparr>baseUrl := u\<rparr>) w)"

definition path :: "ref \<Rightarrow> jsstring \<Rightarrow> world \<Rightarrow> ref \<times> world" where
  "path this p w = (this, assign this (\<lambda>obj. obj\<lparr>apiPath := p\<rparr>) w)"

definition param :: "ref \<Rightarrow> jsobject \<Rightarrow> world \<Rightarrow> ref \<times> world" where
  "param this p w = (this, assign this (\<lambda>obj. obj\<lparr>apiParams := p\<rparr>) w)"

definition header :: "ref \<Rightarrow> jsobject \<Rightarrow> world \<Rightarrow> ref \<times> world" where
  "header this hs w = (this, assign this (\<lambda>obj. obj\<lparr>apiHeader := hs\<rparr>) w)"

definition body :: "ref \<Rightarrow> jsobject \<Rightarrow> world \<Rightarrow> ref \<times> world" where
  "body this b w = (this, assign this (\<lambda>obj. obj\<lparr>apiBody := b\<rparr>) w)"

definition withRequest :: "ref \<Rightarrow> ref option \<Rightarrow> world \<Rightarrow> ref \<times> world" where
  "withRequest this r w = (this, assign this (\<lambda>obj. obj\<lparr>request := r\<rparr>) w)"

definition reset :: "ref \<Rightarrow> world \<Rightarrow> ref \<times> world" where
  "reset this w =
     (this, assign this (\<lambda>obj. obj\<lparr>baseUrl := Some [], apiPath := [], apiParams := [],
                                   apiHeader := [], apiBody := []\<rparr>) w)"

text \<open>
  A chain \<^verbatim>\<open>api.url(..).path(..).param(..)\<close>: each call is made on the reference the call
  before it returned.
\<close>

datatype call =
    Url "jsstring option"
  | Path jsstring
  | Param jsobject
  | Header jsobject
  | Body jsobject
  | WithRequest "ref option"
  | Reset

fun invoke :: "call \<Rightarrow> ref \<Rightarrow> world \<Rightarrow> ref \<times> world" where
  "invoke (Url u) this w = url this u w"
| "invoke (Path p) this w = path this p w"
| "invoke (Param p) this w = param this p w"
| "invoke (Header hs) this w = header this hs w"
| "invoke (Body b) this w = body this b w"
| "invoke (WithRequest r) this w = withRequest this r w"
| "invoke Reset this w = reset this w"

fun chain :: "call list \<Rightarrow> ref \<Rightarrow> world \<Rightarrow> ref \<times> world" where
  "chain [] this w = (this, w)"
| "chain (c # cs) this w = (case invoke c this w of (r, w') \<Rightarrow> chain cs r w')"

section \<open>The host's URL facility\<close>

text \<open>
  Modelled from the spec: the \<^verbatim>\<open>URL\<close> and \<^verbatim>\<open>URLSearchParams\<close> classes that
  \<^verbatim>\<open>buildUrl\<close> calls. They are the "standard URL-composition facility supplied by the host
  environment" of the spec and no file of the repository contains them; every definition
  of this section follows the WHATWG URL and Encoding standards, which define both
  classes, and the names are those of the standards.
\<close>

subsection \<open>Outcomes\<close>

text \<open>A call returns normally or throws.\<close>

datatype error = TypeError

datatype 'a completion = Normal 'a | Throw error

subsection \<open>Code points\<close>

definition is_digit :: "nat \<Rightarrow> bool" where
  "is_digit c = (0x30 \<le> c \<and> c \<le> 0x39)"

definition is_upper_alpha :: "nat \<Rightarrow> bool" where
  "is_upper_alpha c = (0x41 \<le> c \<and> c \<le> 0x5A)"

definition is_lower_alpha :: "nat \<Rightarrow> bool" where
  "is_lower_alpha c = (0x61 \<le> c \<and> c \<le> 0x7A)"

definition is_alpha :: "nat \<Rightarrow> bool" where
  "is_alpha c = (is_upper_alpha c \<or> is_lower_alpha c)"

definition is_alnum :: "nat \<Rightarrow> bool" where
  "is_alnum c = (is_digit c \<or> is_alpha c)"

definition is_hex_digit :: "nat \<Rightarrow> bool" where
  "is_hex_digit c = (is_digit c \<or> (0x41 \<le> c \<and> c \<le> 0x46) \<or> (0x61 \<le> c \<and> c \<le> 0x66))"

definition hex_value :: "nat \<Rightarrow> nat" where
  "hex_value c = (if is_digit c then c - 0x30 else if c \<le> 0x46 then c - 0x37 else c - 0x57)"

definition hex_digit :: "nat \<Rightarrow> nat" where
  "hex_digit n = (if n < 10 then 0x30 + n else 0x37 + n)"

definition ascii_lower :: "nat \<Rightarrow> nat" where
  "ascii_lower c = (if is_upper_alpha c then c + 0x20 else c)"

text \<open>A scalar value: a code point that is not a surrogate.\<close>

definition is_scalar :: "nat \<Rightarrow> bool" where
  "is_scalar c = (c < 0x110000 \<and> (c < 0xD800 \<or> 0xDFFF < c))"

text \<open>
  The conversion of a JavaScript string to a \<^verbatim>\<open>USVString\<close>, which every argument of
  \<^verbatim>\<open>new URL\<close> and \<^verbatim>\<open>append\<close> undergoes: an unpaired surrogate becomes U+FFFD. (A
  number from \<^verbatim>\<open>0x110000\<close> on is no code point and occurs in no string; the function
  treats it like a surrogate.)
\<close>

definition to_usv :: "jsstring \<Rightarrow> jsstring" where
  "to_usv s = map (\<lambda>c. if is_scalar c then c else 0xFFFD) s"

subsection \<open>UTF-8\<close>

definition utf8_encode_cp :: "nat \<Rightarrow> nat list" where
  "utf8_encode_cp c =
     (if c < 0x80 then [c]
      else if c < 0x800 then [0xC0 + c div 64, 0x80 + c mod 64]
      else if c < 0x10000 then [0xE0 + c div 4096, 0x80 + c div 64 mod 64, 0x80 + c mod 64]
      else [0xF0 + c div 262144, 0x80 + c div 4096 mod 64, 0x80 + c div 64 mod 64,
            0x80 + c mod 64])"

definition utf8_encode :: "jsstring \<Rightarrow> nat list" where
  "utf8_encode s = concat (map utf8_encode_cp s)"

text \<open>
  Modelled from the spec: the UTF-8 decoder of the Encoding standard ("UTF-8 decode without
  BOM", error mode replacement), which is not in the repository. Its state is the code
  point under construction, the bytes needed and seen, and the bounds of the next byte. A
  byte that cannot continue a sequence emits U+FFFD and is read again in the initial
  state; so does the end of the input inside a sequence.
\<close>

function utf8_decoder :: "nat \<Rightarrow> nat \<Rightarrow> nat \<Rightarrow> nat \<Rightarrow> nat \<Rightarrow> nat list \<Rightarrow> jsstring" where
  "utf8_decoder cp needed seen lower upper [] = (if needed = 0 then [] else [0xFFFD])"
| "utf8_decoder cp needed seen lower upper (b # bs) =
     (if needed = 0 then
        (if b \<le> 0x7F then b # utf8_decoder 0 0 0 0x80 0xBF bs
         else if 0xC2 \<le> b \<and> b \<le> 0xDF then utf8_decoder (b mod 32) 1 0 0x80 0xBF bs
         else if 0xE0 \<le> b \<and> b \<le> 0xEF then
           utf8_decoder (b mod 16) 2 0 (if b = 0xE0 then 0xA0 else 0x80)
             (if b = 0xED then 0x9F else 0xBF) bs
         else if 0xF0 \<le> b \<and> b \<le> 0xF4 then
           utf8_decoder (b mod 8) 3 0 (if b = 0xF0 then 0x90 else 0x80)
             (if b = 0xF4 then 0x8F else 0xBF) bs
         else 0xFFFD # utf8_decoder 0 0 0 0x80 0xBF bs)
      else if b < lower \<or> upper < b then 0xFFFD # utf8_decoder 0 0 0 0x80 0xBF (b # bs)
      else if seen + 1 = needed then (cp * 64 + b mod 64) # utf8_decoder 0 0 0 0x80 0xBF bs
      else utf8_decoder (cp * 64 + b mod 64) needed (seen + 1) 0x80 0xBF bs)"
  by pat_completeness auto
termination
  by (relation "measure (\<lambda>(cp, needed, seen, lower, upper, bs).
        2 * length bs + (if needed = 0 then 0 else 1))") auto


definition utf8_decode :: "nat list \<Rightarrow> jsstring" where
  "utf8_decode bs = utf8_decoder 0 0 0 0x80 0xBF bs"

subsection \<open>Percent-encoding\<close>

definition percent_encode_byte :: "nat \<Rightarrow> jsstring" where
  "percent_encode_byte b = [0x25, hex_digit (b div 16), hex_digit (b mod 16)]"

fun percent_decode :: "nat list \<Rightarrow> nat list" where
  "percent_decode (b # h # l # bs) =
     (if b = 0x25 \<and> is_hex_digit h \<and> is_hex_digit l
      then (16 * hex_value h + hex_value l) # percent_decode bs
      else b # percent_decode (h # l # bs))"
| "percent_decode (b # bs) = b # percent_decode bs"
| "percent_decode [] = []"

definition c0_control_set :: "nat \<Rightarrow> bool" where
  "c0_control_set c = (c \<le> 0x1F \<or> 0x7E < c)"

definition fragment_set :: "nat \<Rightarrow> bool" where
  "fragment_set c = (c0_control_set c \<or> c \<in> set [0x20, 0x22, 0x3C, 0x3E, 0x60])"

definition query_set :: "nat \<Rightarrow> bool" where
  "query_set c = (c0_control_set c \<or> c \<in> set [0x20, 0x22, 0x23, 0x3C, 0x3E])"

definition special_query_set :: "nat \<Rightarrow> bool" where
  "special_query_set c = (query_set c \<or> c = 0x27)"

definition path_set :: "nat \<Rightarrow> bool" where
  "path_set c = (query_set c \<or> c \<in> set [0x3F, 0x5E, 0x60, 0x7B, 0x7D])"

definition userinfo_set :: "nat \<Rightarrow> bool" where
  "userinfo_set c =
     (path_set c \<or> c \<in> set [0x2F, 0x3A, 0x3B, 0x3D, 0x40, 0x5B, 0x5C, 0x5D, 0x7C])"

definition component_set :: "nat \<Rightarrow> bool" where
  "component_set c = (userinfo_set c \<or> c \<in> set [0x24, 0x25, 0x26, 0x2B, 0x2C])"

definition urlencoded_set :: "nat \<Rightarrow> bool" where
  "urlencoded_set c = (component_set c \<or> c \<in> set [0x21, 0x27, 0x28, 0x29, 0x7E])"

text \<open>
  "Percent-encode after encoding" with UTF-8: every byte of the encoding that is in the
  set is percent-encoded, every other byte stands for itself; with \<open>spaceAsPlus\<close> a
  space becomes \<^verbatim>\<open>+\<close>.
\<close>

definition encode_byte :: "(nat \<Rightarrow> bool) \<Rightarrow> bool \<Rightarrow> nat \<Rightarrow> jsstring" where
  "encode_byte in_set spaceAsPlus b =
     (if spaceAsPlus \<and> b = 0x20 then [0x2B]
      else if in_set b then percent_encode_byte b else [b])"

definition percent_encode_after_encoding :: "(nat \<Rightarrow> bool) \<Rightarrow> bool \<Rightarrow> jsstring \<Rightarrow> jsstring" where
  "percent_encode_after_encoding in_set spaceAsPlus s =
     concat (map (encode_byte in_set spaceAsPlus) (utf8_encode s))"

subsection \<open>The application/x-www-form-urlencoded format\<close>

text \<open>Splitting at every occurrence of a delimiter; the pieces may be empty.\<close>

fun split_on :: "nat \<Rightarrow> nat list \<Rightarrow> nat list list" where
  "split_on d [] = [[]]"
| "split_on d (c # cs) =
     (if c = d then [] # split_on d cs
      else (case split_on d cs of [] \<Rightarrow> [[c]] | piece # pieces \<Rightarrow> (c # piece) # pieces))"

text \<open>
  Modelled from the spec: the serializer of the format, which is not in the repository.
  It writes \<^verbatim>\<open>name=value\<close> pairs joined by \<^verbatim>\<open>&\<close>, names and values percent-encoded
  with the set of the format and a space as \<^verbatim>\<open>+\<close>.
\<close>

definition urlencoded_serialize :: "(jsstring \<times> jsstring) list \<Rightarrow> jsstring" where
  "urlencoded_serialize tuples =
     foldl (\<lambda>output (name, val).
              (if output = [] then [] else output @ [0x26])
              @ percent_encode_after_encoding urlencoded_set True name
              @ [0x3D]
              @ percent_encode_after_encoding urlencoded_set True val)
           [] tuples"

text \<open>
  Modelled from the spec: the parser of the format, which is not in the repository. It
  splits at \<^verbatim>\<open>&\<close>, skips empty pieces, splits each piece at its first \<^verbatim>\<open>=\<close>, turns
  \<^verbatim>\<open>+\<close> into a space, percent-decodes and decodes UTF-8.
\<close>

definition plus_to_space :: "nat list \<Rightarrow> nat list" where
  "plus_to_space bs = map (\<lambda>b. if b = 0x2B then 0x20 else b) bs"

definition urlencoded_parse_piece :: "nat list \<Rightarrow> jsstring \<times> jsstring" where
  "urlencoded_parse_piece bs =
     (let name = takeWhile (\<lambda>b. b \<noteq> 0x3D) bs;
          val = drop 1 (dropWhile (\<lambda>b. b \<noteq> 0x3D) bs)
      in (utf8_decode (percent_decode (plus_to_space name)),
          utf8_decode (percent_decode (plus_to_space val))))"

definition urlencoded_parse :: "nat list \<Rightarrow> (jsstring \<times> jsstring) list" where
  "urlencoded_parse input =
     map urlencoded_parse_piece (filter (\<lambda>bs. bs \<noteq> []) (split_on 0x26 input))"

definition urlencoded_string_parse :: "jsstring \<Rightarrow> (jsstring \<times> jsstring) list" where
  "urlencoded_string_parse input = urlencoded_parse (utf8_encode input)"

subsection \<open>URL records and URL objects\<close>

text \<open>
  Modelled from the spec: the URL record of the standard, which is not in the repository.
  The host is kept in its serialized form (a domain or an IP address as it is written in
  a URL), \<open>None\<close> being the null host; the path is opaque or a list of segments. A
  \<^verbatim>\<open>URL\<close> object is a URL record together with the list of its \<^verbatim>\<open>searchParams\<close>
  object.
\<close>

datatype URL_path = Opaque jsstring | Segments "jsstring list"

record url_record =
  url_scheme :: jsstring
  url_username :: jsstring
  url_password :: jsstring
  url_host :: "jsstring option"
  url_port :: "nat option"
  url_path :: URL_path
  url_query :: "jsstring option"
  url_fragment :: "jsstring option"

record URL = url_record +
  searchParams :: "(jsstring \<times> jsstring) list"

text \<open>The decimal digits of a natural number.\<close>

fun decimal :: "nat \<Rightarrow> jsstring" where
  "decimal n = (if n < 10 then [0x30 + n] else decimal (n div 10) @ [0x30 + n mod 10])"

text \<open>
  Modelled from the spec: the URL serializer, which \<^verbatim>\<open>toString()\<close> and \<^verbatim>\<open>href\<close>
  return; it is not in the repository.
\<close>

definition href :: "'a url_record_scheme \<Rightarrow> jsstring" where
  "href u =
     url_scheme u @ js '':''
     @ (case url_host u of
          Some h \<Rightarrow>
            js ''//''
            @ (if url_username u = [] \<and> url_password u = [] then []
               else url_username u
                    @ (if url_password u = [] then [] else js '':'' @ url_password u)
                    @ js ''@'')
            @ h
            @ (case url_port u of None \<Rightarrow> [] | Some p \<Rightarrow> js '':'' @ decimal p)
        | None \<Rightarrow>
            (case url_path u of
               Segments (s # s' # ss) \<Rightarrow> (if s = [] then js ''/.'' else [])
             | _ \<Rightarrow> []))
     @ (case url_path u of
          Opaque s \<Rightarrow> s
        | Segments segments \<Rightarrow> concat (map (\<lambda>segment. js ''/'' @ segment) segments))
     @ (case url_query u of None \<Rightarrow> [] | Some q \<Rightarrow> js ''?'' @ q)
     @ (case url_fragment u of None \<Rightarrow> [] | Some f \<Rightarrow> js ''#'' @ f)"

text \<open>
  Modelled from the spec: \<^verbatim>\<open>url.searchParams.append(name, value)\<close> on strings, which is
  not in the repository. The pair goes to the end of the list, and the query of the URL
  becomes the serialization of the list (null if that is empty).
\<close>

definition append :: "URL \<Rightarrow> jsstring \<Rightarrow> jsstring \<Rightarrow> URL" where
  "append u name val =
     (let list = searchParams u @ [(to_usv name, to_usv val)];
          serializedQuery = urlencoded_serialize list
      in u\<lparr>searchParams := list,
            url_query := (if serializedQuery = [] then None else Some serializedQuery)\<rparr>)"

subsection \<open>What the model leaves to the host\<close>

text \<open>
  Two things the host does are not spelt out here and are taken as a parameter instead:
  the basic URL parser on the inputs outside the shapes that \<open>basic_URL_parser\<close> below
  covers, and \<^verbatim>\<open>Number::toString\<close> on the finite Numbers that are not safe integers
  (fractions, and values beyond \<open>2\<^sup>5\<^sup>3 - 1\<close> in magnitude, which print with the
  shortest digits that read back as the same double). The latter yields ASCII text, hence
  the type \<open>string\<close>. Every theorem below holds whatever the host does there.
\<close>

record host =
  other_urls :: "jsstring \<Rightarrow> url_record option"
  other_numbers :: "rat \<Rightarrow> string"

text \<open>
  \<^verbatim>\<open>ToString\<close> of a property value, which \<^verbatim>\<open>append\<close> applies to its arguments. A
  safe integer (an integer of magnitude at most \<open>2\<^sup>5\<^sup>3 - 1\<close>) prints as its decimal
  digits, with a minus sign when negative.
\<close>

definition is_safe_integer :: "rat \<Rightarrow> bool" where
  "is_safe_integer x = (of_int \<lfloor>x\<rfloor> = x \<and> \<bar>x\<bar> \<le> 2 ^ 53 - 1)"

definition ToString :: "host \<Rightarrow> jsvalue \<Rightarrow> jsstring" where
  "ToString host v =
     (case v of
        JString s \<Rightarrow> s
      | JNumber NaN \<Rightarrow> js ''NaN''
      | JNumber PositiveInfinity \<Rightarrow> js ''Infinity''
      | JNumber NegativeInfinity \<Rightarrow> js ''-Infinity''
      | JNumber (Finite x) \<Rightarrow>
          if is_safe_integer x
          then (if x < 0 then js ''-'' else []) @ decimal (nat \<bar>\<lfloor>x\<rfloor>\<bar>)
          else js (other_numbers host x))"

subsection \<open>The URL parser\<close>

text \<open>
  Modelled from the spec: the basic URL parser with no base URL, which is not in the
  repository. The model follows the standard on the inputs of the shape
  \<^verbatim>\<open>scheme://domain:port/path?query#fragment\<close> whose scheme is \<^verbatim>\<open>http\<close>,
  \<^verbatim>\<open>https\<close>, \<^verbatim>\<open>ws\<close>, \<^verbatim>\<open>wss\<close> or \<^verbatim>\<open>ftp\<close> and whose domain consists of
  non-empty labels of ASCII letters, digits and hyphens, the last label not starting with
  a digit and no label with hyphens in its third and fourth place (as \<^verbatim>\<open>xn--\<close> has).
  An input with no scheme, and an input of these schemes with an empty host or with a bad
  port after such a domain, is a failure, as in the standard. On every other input
  (credentials, IP addresses, internationalised or percent-encoded domains, \<^verbatim>\<open>file:\<close>
  URLs, schemes that are not special, a \<^verbatim>\<open>^\<close> in the path) the answer is the host's,
  \<open>other_urls\<close>.

  As in the standard, leading and trailing C0 controls and spaces are stripped and tabs
  and newlines removed; any run of slashes and backslashes may follow the colon of the
  scheme; a backslash in the path counts as a slash; the segments \<^verbatim>\<open>.\<close> and \<^verbatim>\<open>..\<close>
  (also written with \<^verbatim>\<open>%2e\<close>) are resolved; a default port is dropped.
\<close>

definition preprocess :: "jsstring \<Rightarrow> jsstring" where
  "preprocess s =
     filter (\<lambda>c. c \<notin> set [0x09, 0x0A, 0x0D])
       (rev (dropWhile (\<lambda>c. c \<le> 0x20) (rev (dropWhile (\<lambda>c. c \<le> 0x20) s))))"

definition is_scheme_char :: "nat \<Rightarrow> bool" where
  "is_scheme_char c = (is_alnum c \<or> c \<in> set [0x2B, 0x2D, 0x2E])"

text \<open>
  Scheme start state and scheme state: a letter, then letters, digits, \<^verbatim>\<open>+\<close>, \<^verbatim>\<open>-\<close>
  and \<^verbatim>\<open>.\<close> up to a colon. Anything else leads to the no scheme state, which fails
  when there is no base URL.
\<close>

definition parse_scheme :: "jsstring \<Rightarrow> (jsstring \<times> jsstring) option" where
  "parse_scheme s =
     (case s of
        [] \<Rightarrow> None
      | c # cs \<Rightarrow>
          if is_alpha c then
            (case dropWhile is_scheme_char cs of
               [] \<Rightarrow> None
             | d # ds \<Rightarrow>
                 if d = 0x3A then Some (map ascii_lower (c # takeWhile is_scheme_char cs), ds)
                 else None)
          else None)"

definition default_port :: "jsstring \<Rightarrow> nat option" where
  "default_port sch =
     (if sch = js ''ftp'' then Some 21
      else if sch = js ''http'' \<or> sch = js ''ws'' then Some 80
      else if sch = js ''https'' \<or> sch = js ''wss'' then Some 443
      else None)"

definition modelled_domain :: "jsstring \<Rightarrow> bool" where
  "modelled_domain h =
     (list_all (\<lambda>c. is_alnum c \<or> c = 0x2D \<or> c = 0x2E) h \<and>
      list_all (\<lambda>label. label \<noteq> [] \<and> take 2 (drop 2 label) \<noteq> js ''--'')
        (split_on 0x2E h) \<and>
      list_all (\<lambda>c. c < 0x30 \<or> 0x39 < c) (take 1 (last (split_on 0x2E h))))"

definition decimal_value :: "jsstring \<Rightarrow> nat" where
  "decimal_value ds = foldl (\<lambda>n d. 10 * n + (d - 0x30)) 0 ds"

definition is_single_dot :: "jsstring \<Rightarrow> bool" where
  "is_single_dot buffer = (map ascii_lower buffer \<in> set [js ''.'', js ''%2e''])"

definition is_double_dot :: "jsstring \<Rightarrow> bool" where
  "is_double_dot buffer =
     (map ascii_lower buffer \<in> set [js ''..'', js ''.%2e'', js ''%2e.'', js ''%2e%2e''])"

text \<open>
  The end of a segment in the path state: \<open>slash\<close> tells whether the segment ends at a
  slash or backslash (and not at the end of the path).
\<close>

definition end_segment :: "jsstring \<Rightarrow> bool \<Rightarrow> jsstring list \<Rightarrow> jsstring list" where
  "end_segment buffer slash p =
     (if is_double_dot buffer then (if slash then butlast p else butlast p @ [[]])
      else if is_single_dot buffer then (if slash then p else p @ [[]])
      else p @ [buffer])"

fun path_state :: "jsstring \<Rightarrow> jsstring list \<Rightarrow> jsstring \<Rightarrow> jsstring list" where
  "path_state buffer p [] = end_segment buffer False p"
| "path_state buffer p (c # cs) =
     (if c = 0x2F \<or> c = 0x5C then path_state [] (end_segment buffer True p) cs
      else path_state (buffer @ percent_encode_after_encoding path_set False [c]) p cs)"

text \<open>
  The URL record from the pieces of the input: the host and port of the authority, the
  input of the path state, and what follows the path (the query state reads from a
  \<^verbatim>\<open>?\<close> to the next \<^verbatim>\<open>#\<close>, the fragment state reads the rest).
\<close>

definition special_url :: "jsstring \<Rightarrow> jsstring \<Rightarrow> jsstring \<Rightarrow> jsstring \<Rightarrow> jsstring \<Rightarrow> url_record" where
  "special_url sch host_buffer port_buffer path_input after_path =
     (let query_input = takeWhile (\<lambda>c. c \<noteq> 0x23) (drop 1 after_path);
          after_query =
            (if take 1 after_path = [0x3F]
             then dropWhile (\<lambda>c. c \<noteq> 0x23) (drop 1 after_path) else after_path)
      in \<lparr> url_scheme = sch,
           url_username = [],
           url_password = [],
           url_host = Some (map ascii_lower host_buffer),
           url_port =
             (if port_buffer = [] \<or> Some (decimal_value port_buffer) = default_port sch
              then None else Some (decimal_value port_buffer)),
           url_path = Segments (path_state [] [] (drop 1 path_input)),
           url_query =
             (if take 1 after_path = [0x3F]
              then Some (percent_encode_after_encoding special_query_set False query_input)
              else None),
           url_fragment =
             (if after_query = [] then None
              else Some (percent_encode_after_encoding fragment_set False
                           (drop 1 after_query))) \<rparr>)"

definition basic_URL_parser :: "host \<Rightarrow> jsstring \<Rightarrow> url_record option" where
  "basic_URL_parser host input =
     (case parse_scheme (preprocess input) of
        None \<Rightarrow> None
      | Some (sch, rest) \<Rightarrow>
          let remaining = dropWhile (\<lambda>c. c = 0x2F \<or> c = 0x5C) rest;
              authority = takeWhile (\<lambda>c. c \<notin> set [0x2F, 0x5C, 0x3F, 0x23]) remaining;
              after_authority = dropWhile (\<lambda>c. c \<notin> set [0x2F, 0x5C, 0x3F, 0x23]) remaining;
              host_buffer = takeWhile (\<lambda>c. c \<noteq> 0x3A) authority;
              port_buffer = drop 1 (dropWhile (\<lambda>c. c \<noteq> 0x3A) authority);
              path_input = takeWhile (\<lambda>c. c \<notin> set [0x3F, 0x23]) after_authority;
              after_path = dropWhile (\<lambda>c. c \<notin> set [0x3F, 0x23]) after_authority
          in if sch \<in> set [js ''ftp'', js ''http'', js ''https'', js ''ws'', js ''wss''] then
               (if list_ex (\<lambda>c. c \<in> set [0x40, 0x5B, 0x5D]) authority
                then other_urls host input
                else if host_buffer = [] then None
                else if modelled_domain host_buffer then
                  (if list_all is_digit port_buffer \<and> decimal_value port_buffer \<le> 65535 then
                     (if 0x5E \<in> set path_input then other_urls host input
                      else Some (special_url sch host_buffer port_buffer path_input
                                   after_path))
                   else None)
                else other_urls host input)
             else other_urls host input)"

text \<open>
  Modelled from the spec: the constructor \<^verbatim>\<open>new URL(input)\<close>, which is not in the
  repository. Its argument is converted to a \<^verbatim>\<open>USVString\<close> and parsed; a failure
  throws a \<^verbatim>\<open>TypeError\<close>; the \<^verbatim>\<open>searchParams\<close> object of the new \<^verbatim>\<open>URL\<close> holds
  the parsed query.
\<close>

definition new_URL :: "host \<Rightarrow> jsstring \<Rightarrow> URL completion" where
  "new_URL host input =
     (case basic_URL_parser host (to_usv input) of
        None \<Rightarrow> Throw TypeError
      | Some r \<Rightarrow>
          Normal \<lparr> url_scheme = url_scheme r,
                   url_username = url_username r,
                   url_password = url_password r,
                   url_host = url_host r,
                   url_port = url_port r,
                   url_path = url_path r,
                   url_query = url_query r,
                   url_fragment = url_fragment r,
                   searchParams =
                     urlencoded_string_parse
                       (case url_query r of None \<Rightarrow> [] | Some q \<Rightarrow> q) \<rparr>)"

section \<open>Composing the URL\<close>

text \<open>
  The loop of \<^verbatim>\<open>buildUrl\<close> over \<^verbatim>\<open>Object.entries(this.apiParams)\<close>: each value is
  converted to a string and appended under its key.
\<close>

fun append_all :: "host \<Rightarrow> URL \<Rightarrow> jsobject \<Rightarrow> URL" where
  "append_all host u [] = u"
| "append_all host u ((Key, v) # entries) =
     append_all host (append u Key (ToString host v)) entries"

text \<open>
  \<^verbatim>\<open>buildUrl\<close>, the method that composes the URL (private in the source, and the only
  method that returns something other than the instance). The URL is made from
  \<^verbatim>\<open>this.baseUrl ?? this.defaultBaseUrl\<close> alone (\<open>nullish_base\<close>: the default stands in
  for null and undefined only, not for the empty string), the parameters are appended to
  its query, and the serialization is logged and returned. No field of the instance is
  assigned, and \<open>apiPath\<close> is not read.
\<close>

definition nullish_base :: "RequestHandler \<Rightarrow> jsstring" where
  "nullish_base obj = (case baseUrl obj of None \<Rightarrow> defaultBaseUrl obj | Some b \<Rightarrow> b)"

definition buildUrl :: "host \<Rightarrow> ref \<Rightarrow> world \<Rightarrow> jsstring completion \<times> world" where
  "buildUrl host this w =
     (let obj = heap w this in
      case new_URL host (nullish_base obj) of
        Throw e \<Rightarrow> (Throw e, w)
      | Normal u \<Rightarrow>
          (let u' = append_all host u (apiParams obj)
           in (Normal (href u'), w\<lparr>console := console w @ [href u']\<rparr>)))"

section \<open>Notions for the statements\<close>

text \<open>The name-value pairs that the loop of \<^verbatim>\<open>buildUrl\<close> appends for an object.\<close>

definition tuples_of :: "host \<Rightarrow> jsobject \<Rightarrow> (jsstring \<times> jsstring) list" where
  "tuples_of host entries =
     map (\<lambda>(Key, v). (to_usv Key, to_usv (ToString host v))) entries"





text \<open>A store in which every reference holds a newly constructed instance.\<close>

definition initial_world :: world where
  "initial_world = \<lparr> heap = (\<lambda>r. new_RequestHandler), console = [] \<rparr>"

section \<open>Properties of the configuration methods\<close>

lemma invoke_returns_this: "fst (invoke c this w) = this"
  by (cases c) (simp_all add: url_def path_def param_def header_def body_def
      withRequest_def reset_def)

lemma chain_returns_this: "fst (chain cs this w) = this"
proof (induction cs arbitrary: w)
  case Nil
  show ?case by simp
next
  case (Cons c cs)
  obtain r w' where step: "invoke c this w = (r, w')"
    by (cases "invoke c this w")
  with invoke_returns_this [of c this w] have "r = this"
    by simp
  with step Cons.IH [of w'] show ?case
    by simp
qed

text \<open>
  C9. Every configuration call returns the reference it was invoked on, and so does a
  chain of such calls of any length: the whole chain works on one instance.
\<close>

theorem fluent_identity:
  "fst (url this u w) = this \<and> fst (path this p w) = this \<and> fst (param this q w) = this \<and>
   fst (header this hs w) = this \<and> fst (body this b w) = this \<and>
   fst (withRequest this r w) = this \<and> fst (reset this w) = this \<and>
   fst (chain cs this w) = this"
proof -
  have "fst (chain cs this w) = this"
  proof (induction cs arbitrary: w)
    case Nil
    show ?case by simp
  next
    case (Cons c cs)
    obtain r w' where step: "invoke c this w = (r, w')"
      by (cases "invoke c this w")
    with invoke_returns_this [of c this w] have "r = this"
      by simp
    with step Cons.IH [of w'] show ?case
      by simp
  qed
  then show ?thesis
    by (simp add: url_def path_def param_def header_def body_def withRequest_def reset_def)
qed

text \<open>
  C6. After \<^verbatim>\<open>reset()\<close> the five facets \<open>baseUrl\<close>, \<open>apiPath\<close>, \<open>apiParams\<close>,
  \<open>apiHeader\<close> and \<open>apiBody\<close> of the instance have the values of a new instance, and
  its transport handle \<open>request\<close> is the one it had before the call.
\<close>

theorem reset_restores_facets_keeps_request:
  "baseUrl (heap (snd (reset this w)) this) = baseUrl new_RequestHandler \<and>
   apiPath (heap (snd (reset this w)) this) = apiPath new_RequestHandler \<and>
   apiParams (heap (snd (reset this w)) this) = apiParams new_RequestHandler \<and>
   apiHeader (heap (snd (reset this w)) this) = apiHeader new_RequestHandler \<and>
   apiBody (heap (snd (reset this w)) this) = apiBody new_RequestHandler \<and>
   request (heap (snd (reset this w)) this) = request (heap w this)"
  by (simp add: reset_def assign_def new_RequestHandler_def)

section \<open>Definitions to unfold\<close>

lemmas char_defs = is_digit_def is_upper_alpha_def is_lower_alpha_def is_alpha_def is_alnum_def
  is_hex_digit_def hex_value_def hex_digit_def ascii_lower_def is_scalar_def

lemmas set_defs = c0_control_set_def fragment_set_def query_set_def special_query_set_def
  path_set_def userinfo_set_def component_set_def urlencoded_set_def

lemmas parse_defs = new_URL_def basic_URL_parser_def special_url_def preprocess_def to_usv_def
  parse_scheme_def is_scheme_char_def default_port_def modelled_domain_def decimal_value_def
  is_single_dot_def is_double_dot_def end_segment_def js_def
  percent_encode_after_encoding_def encode_byte_def utf8_encode_def utf8_encode_cp_def
  percent_encode_byte_def urlencoded_string_parse_def urlencoded_parse_def
  urlencoded_parse_piece_def plus_to_space_def utf8_decode_def

lemmas method_defs = url_def path_def param_def header_def body_def withRequest_def reset_def
  assign_def

declare decimal.simps [simp del]

section \<open>The application/x-www-form-urlencoded format\<close>

subsection \<open>The serializer, pair by pair\<close>

lemma urlencoded_serialize_snoc:
  "urlencoded_serialize (ts @ [(name, val)]) =
     (if urlencoded_serialize ts = [] then [] else urlencoded_serialize ts @ [0x26])
     @ percent_encode_after_encoding urlencoded_set True name @ [0x3D]
     @ percent_encode_after_encoding urlencoded_set True val"
  by (simp add: urlencoded_serialize_def)

lemma urlencoded_serialize_empty: "urlencoded_serialize ts = [] \<longleftrightarrow> ts = []"
proof (cases ts rule: rev_cases)
  case Nil
  then show ?thesis by (simp add: urlencoded_serialize_def)
next
  case (snoc ts' t)
  then show ?thesis by (cases t) (simp add: urlencoded_serialize_snoc)
qed



subsection \<open>UTF-8: decoding what was encoded\<close>

















declare utf8_decoder.simps [simp del]




subsection \<open>Percent-decoding what was encoded\<close>











subsection \<open>The characters of an encoded name or value\<close>









subsection \<open>Splitting\<close>

lemma split_on_not_Nil: "split_on d s \<noteq> []"
  by (induction s) (simp_all split: list.split)



subsection \<open>Parsing what was serialized\<close>











subsection \<open>What the decoder emits\<close>

















subsection \<open>Strings without unpaired surrogates\<close>





subsection \<open>Decimal digits\<close>







subsection \<open>What \<^verbatim>\<open>ToString\<close> gives\<close>







section \<open>Properties of \<^verbatim>\<open>buildUrl\<close>\<close>

subsection \<open>What it reads and what it leaves alone\<close>

lemma buildUrl_heap: "heap (snd (buildUrl host this w)) = heap w"
  by (simp add: buildUrl_def Let_def split: completion.splits)

lemma buildUrl_reads:
  assumes "baseUrl (heap w' this) = baseUrl (heap w this)"
    and "defaultBaseUrl (heap w' this) = defaultBaseUrl (heap w this)"
    and "apiParams (heap w' this) = apiParams (heap w this)"
  shows "fst (buildUrl host this w') = fst (buildUrl host this w)"
  unfolding buildUrl_def Let_def nullish_base_def assms by (simp split: completion.split)

text \<open>
  C7. \<^verbatim>\<open>buildUrl\<close> leaves every instance of the store as it was, with all its fields
  (the line it logs goes to the console, which is no part of an instance), and a second
  call right after the first returns the same result.
\<close>

theorem buildUrl_reads_only:
  "heap (snd (buildUrl host this w)) = heap w \<and>
   fst (buildUrl host this (snd (buildUrl host this w))) = fst (buildUrl host this w)"
proof
  show same: "heap (snd (buildUrl host this w)) = heap w"
    by (rule buildUrl_heap)
  show "fst (buildUrl host this (snd (buildUrl host this w))) = fst (buildUrl host this w)"
    by (rule buildUrl_reads) (simp_all add: same)
qed

subsection \<open>The loop over the parameters\<close>

lemma append_all_foldl:
  "append_all host u es = foldl (\<lambda>u' (Key, v). append u' Key (ToString host v)) u es"
  by (induction es arbitrary: u) auto

lemma foldl_append:
  "foldl (\<lambda>u' (Key, v). append u' Key (ToString host v)) u es =
     (if es = [] then u
      else u\<lparr>searchParams := searchParams u @ tuples_of host es,
             url_query := Some (urlencoded_serialize (searchParams u @ tuples_of host es))\<rparr>)"
proof (induction es rule: rev_induct)
  case Nil
  show ?case by simp
next
  case (snoc e es)
  obtain Key v where e: "e = (Key, v)"
    by (cases e)
  have step: "foldl (\<lambda>u' (Key, v). append u' Key (ToString host v)) u (es @ [e]) =
      append (foldl (\<lambda>u' (Key, v). append u' Key (ToString host v)) u es) Key (ToString host v)"
    by (simp add: e)
  show ?case
    unfolding step snoc.IH
    by (simp add: e append_def Let_def tuples_of_def urlencoded_serialize_empty)
qed

text \<open>What \<^verbatim>\<open>buildUrl\<close> returns when the URL parses, and when it does not.\<close>

lemma buildUrl_Normal:
  assumes "new_URL host (nullish_base (heap w this)) = Normal u"
  shows "fst (buildUrl host this w) =
     Normal (href (if apiParams (heap w this) = [] then u
                   else u\<lparr>searchParams := searchParams u @ tuples_of host (apiParams (heap w this)),
                          url_query := Some (urlencoded_serialize
                            (searchParams u @ tuples_of host (apiParams (heap w this))))\<rparr>))"
  using assms by (simp add: buildUrl_def Let_def append_all_foldl foldl_append)

lemma buildUrl_Throw:
  "new_URL host (nullish_base (heap w this)) = Throw e \<Longrightarrow> fst (buildUrl host this w) = Throw e"
  by (simp add: buildUrl_def Let_def)




subsection \<open>The state after a configuration call\<close>

lemma heap_url: "heap (snd (url this u w)) this = (heap w this)\<lparr>baseUrl := u\<rparr>"
  by (simp add: method_defs)

lemma heap_path: "heap (snd (path this p w)) this = (heap w this)\<lparr>apiPath := p\<rparr>"
  by (simp add: method_defs)

lemma heap_param: "heap (snd (param this m w)) this = (heap w this)\<lparr>apiParams := m\<rparr>"
  by (simp add: method_defs)

lemma heap_header: "heap (snd (header this hs w)) this = (heap w this)\<lparr>apiHeader := hs\<rparr>"
  by (simp add: method_defs)

lemma heap_body: "heap (snd (body this b w)) this = (heap w this)\<lparr>apiBody := b\<rparr>"
  by (simp add: method_defs)

lemma heap_reset:
  "heap (snd (reset this w)) this =
     (heap w this)\<lparr>baseUrl := Some [], apiPath := [], apiParams := [], apiHeader := [],
                    apiBody := []\<rparr>"
  by (simp add: method_defs)

lemma heap_initial: "heap initial_world this = new_RequestHandler"
  by (simp add: initial_world_def)

lemmas heap_after = heap_url heap_path heap_param heap_header heap_body heap_reset heap_initial

subsection \<open>Some URLs, parsed\<close>

lemma new_URL_empty: "new_URL host [] = Throw TypeError"
  by (simp add: new_URL_def basic_URL_parser_def preprocess_def to_usv_def parse_scheme_def)

lemma new_URL_default:
  "new_URL host (js ''https://conduit-api.bondaracademy.com'') =
     Normal \<lparr> url_scheme = js ''https'', url_username = [], url_password = [],
              url_host = Some (js ''conduit-api.bondaracademy.com''), url_port = None,
              url_path = Segments [[]], url_query = None, url_fragment = None,
              searchParams = [] \<rparr>"
  by (simp add: parse_defs char_defs set_defs Let_def)

lemma new_URL_api_com:
  "new_URL host (js ''https://api.com'') =
     Normal \<lparr> url_scheme = js ''https'', url_username = [], url_password = [],
              url_host = Some (js ''api.com''), url_port = None,
              url_path = Segments [[]], url_query = None, url_fragment = None,
              searchParams = [] \<rparr>"
  by (simp add: parse_defs char_defs set_defs Let_def)




text \<open>With \<^verbatim>\<open>null\<close> as base URL the default origin is taken.\<close>

lemma null_base_takes_default:
  "fst (buildUrl host 0 (snd (url 0 None initial_world))) =
   Normal (js ''https://conduit-api.bondaracademy.com/'')"
proof -
  let ?w = "snd (url 0 None initial_world)"
  have "nullish_base (heap ?w 0) = js ''https://conduit-api.bondaracademy.com''"
    by (simp add: heap_after nullish_base_def new_RequestHandler_def)
  then have "new_URL host (nullish_base (heap ?w 0)) =
     Normal \<lparr> url_scheme = js ''https'', url_username = [], url_password = [],
              url_host = Some (js ''conduit-api.bondaracademy.com''), url_port = None,
              url_path = Segments [[]], url_query = None, url_fragment = None,
              searchParams = [] \<rparr>"
    by (simp only: new_URL_default)
  moreover have "apiParams (heap ?w 0) = []"
    by (simp add: heap_after new_RequestHandler_def)
  ultimately have "fst (buildUrl host 0 ?w) =
     Normal (href \<lparr> url_scheme = js ''https'', url_username = [], url_password = [],
              url_host = Some (js ''conduit-api.bondaracademy.com''), url_port = None,
              url_path = Segments [[]], url_query = None, url_fragment = None,
              searchParams = [] \<rparr>)"
    using buildUrl_Normal [of host ?w 0] by simp
  also have "\<dots> = Normal (js ''https://conduit-api.bondaracademy.com/'')"
    by (simp add: href_def js_def)
  finally show ?thesis .
qed

subsection \<open>The base URL and the path\<close>

text \<open>
  C1. The path is stored and never used: with the base URL \<^verbatim>\<open>https://api.com\<close> and the
  path \<^verbatim>\<open>/users\<close>, \<^verbatim>\<open>buildUrl\<close> returns \<^verbatim>\<open>https://api.com/\<close>.
\<close>

theorem path_is_not_composed:
  "\<forall>host. fst (buildUrl host 0 (snd (path 0 (js ''/users'')
     (snd (url 0 (Some (js ''https://api.com'')) initial_world))))) =
   Normal (js ''https://api.com/'')"
proof
  fix host
  let ?w = "snd (path 0 (js ''/users'') (snd (url 0 (Some (js ''https://api.com'')) initial_world)))"
  have "nullish_base (heap ?w 0) = js ''https://api.com''"
    by (simp add: heap_after nullish_base_def)
  then have "new_URL host (nullish_base (heap ?w 0)) =
     Normal \<lparr> url_scheme = js ''https'', url_username = [], url_password = [],
              url_host = Some (js ''api.com''), url_port = None,
              url_path = Segments [[]], url_query = None, url_fragment = None,
              searchParams = [] \<rparr>"
    by (simp only: new_URL_api_com)
  moreover have "apiParams (heap ?w 0) = []"
    by (simp add: heap_after new_RequestHandler_def)
  ultimately have "fst (buildUrl host 0 ?w) =
     Normal (href \<lparr> url_scheme = js ''https'', url_username = [], url_password = [],
              url_host = Some (js ''api.com''), url_port = None,
              url_path = Segments [[]], url_query = None, url_fragment = None,
              searchParams = [] \<rparr>)"
    using buildUrl_Normal [of host ?w 0] by simp
  also have "\<dots> = Normal (js ''https://api.com/'')"
    by (simp add: href_def js_def)
  finally show "fst (buildUrl host 0 ?w) = Normal (js ''https://api.com/'')" .
qed

text \<open>
  C2. With the base URL never set, and with the base URL reset, \<^verbatim>\<open>buildUrl\<close> throws: the
  stored base URL is the empty string, for which \<^verbatim>\<open>??\<close> does not take the default.
\<close>

theorem unset_base_throws:
  "\<forall>host.
     fst (buildUrl host 0 (snd (path 0 (js ''/api/tags'') initial_world))) = Throw TypeError \<and>
     fst (buildUrl host 0 (snd (reset 0
       (snd (url 0 (Some (js ''https://api.com'')) initial_world))))) = Throw TypeError"
proof (rule allI, rule conjI)
  fix host
  have "nullish_base (heap (snd (path 0 (js ''/api/tags'') initial_world)) 0) = []"
    by (simp add: heap_after nullish_base_def new_RequestHandler_def)
  then show "fst (buildUrl host 0 (snd (path 0 (js ''/api/tags'') initial_world))) =
      Throw TypeError"
    by (simp add: buildUrl_Throw new_URL_empty)
  have "nullish_base (heap (snd (reset 0
          (snd (url 0 (Some (js ''https://api.com'')) initial_world)))) 0) = []"
    by (simp add: heap_after nullish_base_def)
  then show "fst (buildUrl host 0 (snd (reset 0
     (snd (url 0 (Some (js ''https://api.com'')) initial_world))))) = Throw TypeError"
    by (simp add: buildUrl_Throw new_URL_empty)
qed

text \<open>
  C3. A new instance has a default origin that parses, and \<^verbatim>\<open>buildUrl\<close> throws on it all
  the same.
\<close>

theorem throws_though_default_is_valid:
  "\<forall>host.
     fst (buildUrl host 0 initial_world) = Throw TypeError \<and>
     map_completion href (new_URL host (defaultBaseUrl (heap initial_world 0))) =
       Normal (js ''https://conduit-api.bondaracademy.com/'')"
proof (rule allI, rule conjI)
  fix host
  have "nullish_base (heap initial_world 0) = []"
    by (simp add: heap_after nullish_base_def new_RequestHandler_def)
  then show "fst (buildUrl host 0 initial_world) = Throw TypeError"
    by (simp add: buildUrl_Throw new_URL_empty)
  have "defaultBaseUrl (heap initial_world 0) = js ''https://conduit-api.bondaracademy.com''"
    by (simp add: heap_after new_RequestHandler_def)
  then have "map_completion href (new_URL host (defaultBaseUrl (heap initial_world 0))) =
     Normal (href \<lparr> url_scheme = js ''https'', url_username = [], url_password = [],
              url_host = Some (js ''conduit-api.bondaracademy.com''), url_port = None,
              url_path = Segments [[]], url_query = None, url_fragment = None,
              searchParams = [] \<rparr>)"
    by (simp only: new_URL_default completion.map)
  also have "\<dots> = Normal (js ''https://conduit-api.bondaracademy.com/'')"
    by (simp add: href_def js_def)
  finally show "map_completion href (new_URL host (defaultBaseUrl (heap initial_world 0))) =
     Normal (js ''https://conduit-api.bondaracademy.com/'')" .
qed

subsection \<open>The stored headers and body\<close>

text \<open>
  The fields that \<^verbatim>\<open>buildUrl\<close> reads are the same in two stores after the same chain of
  calls if they were the same before it.
\<close>

lemma invoke_agree:
  assumes "baseUrl (heap w this) = baseUrl (heap w' this)"
    and "defaultBaseUrl (heap w this) = defaultBaseUrl (heap w' this)"
    and "apiParams (heap w this) = apiParams (heap w' this)"
  shows "baseUrl (heap (snd (invoke c this w)) this) =
           baseUrl (heap (snd (invoke c this w')) this) \<and>
         defaultBaseUrl (heap (snd (invoke c this w)) this) =
           defaultBaseUrl (heap (snd (invoke c this w')) this) \<and>
         apiParams (heap (snd (invoke c this w)) this) =
           apiParams (heap (snd (invoke c this w')) this)"
  using assms by (cases c) (simp_all add: method_defs)

lemma chain_agree:
  assumes "baseUrl (heap w this) = baseUrl (heap w' this)"
    and "defaultBaseUrl (heap w this) = defaultBaseUrl (heap w' this)"
    and "apiParams (heap w this) = apiParams (heap w' this)"
  shows "baseUrl (heap (snd (chain cs this w)) this) =
           baseUrl (heap (snd (chain cs this w')) this) \<and>
         defaultBaseUrl (heap (snd (chain cs this w)) this) =
           defaultBaseUrl (heap (snd (chain cs this w')) this) \<and>
         apiParams (heap (snd (chain cs this w)) this) =
           apiParams (heap (snd (chain cs this w')) this)"
  using assms
proof (induction cs arbitrary: w w')
  case Nil
  then show ?case by simp
next
  case (Cons c cs)
  have step: "chain (c # cs) this v = chain cs this (snd (invoke c this v))" for v
    using invoke_returns_this [of c this v] by (cases "invoke c this v") simp
  from invoke_agree [OF Cons.prems, of c] show ?case
    unfolding step by (intro Cons.IH) simp_all
qed

text \<open>
  C4, as amended. \<^verbatim>\<open>header\<close> and \<^verbatim>\<open>body\<close> store their argument in the instance,
  whatever was stored before, and no method hands it back: every configuration call, and
  every chain of them, returns the instance itself, and what \<^verbatim>\<open>buildUrl\<close> returns is the
  same whatever headers and body are stored.
\<close>

theorem headers_and_body_stored_not_returned:
  "apiHeader (heap (snd (header this hs w)) this) = hs \<and>
   apiBody (heap (snd (body this b w)) this) = b \<and>
   fst (invoke c this w) = this \<and>
   fst (chain cs this w) = this \<and>
   fst (buildUrl host this (snd (header this hs w))) = fst (buildUrl host this w) \<and>
   fst (buildUrl host this (snd (body this b w))) = fst (buildUrl host this w)"
proof -
  have "fst (buildUrl host this (snd (header this hs w))) = fst (buildUrl host this w)"
    by (rule buildUrl_reads) (simp_all add: method_defs)
  moreover have "fst (buildUrl host this (snd (body this b w))) = fst (buildUrl host this w)"
    by (rule buildUrl_reads) (simp_all add: method_defs)
  ultimately show ?thesis
    by (simp add: method_defs invoke_returns_this chain_returns_this)
qed

text \<open>
  C4, as stated, fails: the public interface of the class is its seven configuration
  methods, and nothing they return tells a builder in which headers and a body are stored
  from a new one. Whatever chain of calls is made on the two, the same value comes back,
  and \<^verbatim>\<open>buildUrl\<close> (which is private) called after the chain returns the same on both.
  So the stored headers and body cannot be read back.
\<close>

theorem headers_and_body_not_readable:
  "apiHeader (heap (snd (header 0 [(js ''Authorization'', JString (js ''authToken''))]
       initial_world)) 0) \<noteq> apiHeader (heap initial_world 0) \<and>
   apiBody (heap (snd (body 0 [(js ''email'', JString (js ''a@b.c''))]
       initial_world)) 0) \<noteq> apiBody (heap initial_world 0) \<and>
   (\<forall>calls.
      fst (chain calls 0 (snd (header 0 [(js ''Authorization'', JString (js ''authToken''))]
        initial_world))) = fst (chain calls 0 initial_world) \<and>
      fst (chain calls 0 (snd (body 0 [(js ''email'', JString (js ''a@b.c''))]
        initial_world))) = fst (chain calls 0 initial_world)) \<and>
   (\<forall>host calls.
      fst (buildUrl host 0 (snd (chain calls 0
        (snd (header 0 [(js ''Authorization'', JString (js ''authToken''))] initial_world))))) =
        fst (buildUrl host 0 (snd (chain calls 0 initial_world))) \<and>
      fst (buildUrl host 0 (snd (chain calls 0
        (snd (body 0 [(js ''email'', JString (js ''a@b.c''))] initial_world))))) =
        fst (buildUrl host 0 (snd (chain calls 0 initial_world))))"
proof -
  let ?h = "snd (header 0 [(js ''Authorization'', JString (js ''authToken''))] initial_world)"
  let ?b = "snd (body 0 [(js ''email'', JString (js ''a@b.c''))] initial_world)"
  have stored: "apiHeader (heap ?h 0) \<noteq> apiHeader (heap initial_world 0)"
    "apiBody (heap ?b 0) \<noteq> apiBody (heap initial_world 0)"
    by (simp_all add: heap_after new_RequestHandler_def)
  have returned: "fst (chain calls 0 ?h) = fst (chain calls 0 initial_world)"
    "fst (chain calls 0 ?b) = fst (chain calls 0 initial_world)" for calls
    by (simp_all add: chain_returns_this)
  have composed: "fst (buildUrl host 0 (snd (chain calls 0 ?h))) =
      fst (buildUrl host 0 (snd (chain calls 0 initial_world)))"
    "fst (buildUrl host 0 (snd (chain calls 0 ?b))) =
      fst (buildUrl host 0 (snd (chain calls 0 initial_world)))" for host calls
  proof -
    have "baseUrl (heap (snd (chain calls 0 ?h)) 0) =
            baseUrl (heap (snd (chain calls 0 initial_world)) 0) \<and>
          defaultBaseUrl (heap (snd (chain calls 0 ?h)) 0) =
            defaultBaseUrl (heap (snd (chain calls 0 initial_world)) 0) \<and>
          apiParams (heap (snd (chain calls 0 ?h)) 0) =
            apiParams (heap (snd (chain calls 0 initial_world)) 0)"
      by (rule chain_agree) (simp_all add: heap_after)
    then show "fst (buildUrl host 0 (snd (chain calls 0 ?h))) =
        fst (buildUrl host 0 (snd (chain calls 0 initial_world)))"
      by (intro buildUrl_reads) simp_all
    have "baseUrl (heap (snd (chain calls 0 ?b)) 0) =
            baseUrl (heap (snd (chain calls 0 initial_world)) 0) \<and>
          defaultBaseUrl (heap (snd (chain calls 0 ?b)) 0) =
            defaultBaseUrl (heap (snd (chain calls 0 initial_world)) 0) \<and>
          apiParams (heap (snd (chain calls 0 ?b)) 0) =
            apiParams (heap (snd (chain calls 0 initial_world)) 0)"
      by (rule chain_agree) (simp_all add: heap_after)
    then show "fst (buildUrl host 0 (snd (chain calls 0 ?b))) =
        fst (buildUrl host 0 (snd (chain calls 0 initial_world)))"
      by (intro buildUrl_reads) simp_all
  qed
  from stored returned composed show ?thesis
    by blast
qed

subsection \<open>A second call of \<^verbatim>\<open>param\<close> or \<^verbatim>\<open>header\<close>\<close>






subsection \<open>The query of the composed URL\<close>




subsection \<open>A base URL with a query of its own\<close>




end
